theory Spec2Isabelle
  imports Complex_Main "HOL-Library.Sublist"
begin

section \<open>Values crossing the Python boundary\<close>

text \<open>
  The webhook body and the optional \<open>tp\<close>/\<open>sl\<close> arguments of \<open>open_position\<close> are
  whatever the JSON parser produced. They are modelled by a datatype of Python values.
  A \<open>PDict\<close> is the association list of a parsed JSON object (each key once).
  Floats are represented by rationals: the program does no arithmetic on them, it only
  stores them, passes them on and tests them against zero, so rounding, infinities and
  NaN are outside this model.
\<close>

datatype pyval =
    PNone
  | PBool bool
  | PInt int
  | PFloat rat
  | PStr string
  | PList "pyval list"
  | PDict "(string \<times> pyval) list"

text \<open>Python truthiness, as tested by \<open>if tp:\<close> and \<open>if sl:\<close>.\<close>

fun truthy :: "pyval \<Rightarrow> bool" where
  "truthy PNone = False"
| "truthy (PBool b) = b"
| "truthy (PInt i) = (i \<noteq> 0)"
| "truthy (PFloat q) = (q \<noteq> 0)"
| "truthy (PStr s) = (s \<noteq> [])"
| "truthy (PList xs) = (xs \<noteq> [])"
| "truthy (PDict kvs) = (kvs \<noteq> [])"

text \<open>The exceptions that can travel through the handlers.\<close>

datatype exn =
    AttributeError
  | TypeError
  | ValueError
  | OverflowError
  | AssertionError
  | SqliteBindError
  | GatewayError string

text \<open>\<open>dict.get(key)\<close>: the value, or \<open>None\<close> when the key is absent.\<close>

definition dict_get :: "(string \<times> pyval) list \<Rightarrow> string \<Rightarrow> pyval" where
  "dict_get kvs k = (case map_of kvs k of None \<Rightarrow> PNone | Some v \<Rightarrow> v)"

text \<open>
  \<open>xs[k]\<close> on a Python list: a negative index counts from the end, an index out of
  range raises IndexError (the value \<open>None\<close> here).
\<close>

definition py_index :: "'a list \<Rightarrow> int \<Rightarrow> 'a option" where
  "py_index xs k =
     (let n = int (length xs); j = (if k < 0 then n + k else k)
      in if 0 \<le> j \<and> j < n then Some (xs ! nat j) else None)"

text \<open>
  \<open>symbol.replace('/', '').upper()\<close>. Characters are bytes here; the ASCII letters are
  raised to upper case and every other byte is kept, where Python would also raise the
  letters beyond ASCII. The general statements below use \<open>normalize\<close> as a function
  of the symbol only and do not depend on how it is computed.
\<close>

definition upper_char :: "char \<Rightarrow> char" where
  "upper_char c =
     (let n = (of_char c :: nat) in if 97 \<le> n \<and> n \<le> 122 then char_of (n - 32) else c)"

definition normalize :: "string \<Rightarrow> string" where
  "normalize symbol = map upper_char (filter (\<lambda>c. c \<noteq> CHR ''/'') symbol)"

section \<open>The trade journal\<close>

text \<open>
  One row of the table \<open>trades\<close>. The column \<open>id\<close> is called \<open>row_id\<close>; the column
  \<open>timestamp\<close> is filled by the database and never read by the program, so it is left
  out. \<open>NULL\<close> is \<open>None\<close> (\<open>PNone\<close> in the two target-price columns, which hold
  the raw \<open>tp\<close>/\<open>sl\<close> argument as it was bound). The table is a list of rows in the
  order of insertion; failures of the database file itself are not modelled.
\<close>

record trade =
  row_id :: nat
  symbol :: string
  signal :: string
  position_size :: rat
  entry_order_id :: "int option"
  tp_order_id :: "int option"
  entry_price :: "rat option"
  exit_price :: "rat option"
  tp_price :: pyval
  tp_hit :: bool
  closed :: bool
  sl_price :: pyval
  sl_order_id :: "int option"

type_synonym journal = "trade list"

text \<open>
  \<open>AUTOINCREMENT\<close>: the new key is one more than the largest key ever used. Rows are
  never deleted, so that is the largest key of the table; the first key is 1.
\<close>

definition next_id :: "journal \<Rightarrow> nat" where
  "next_id db = Suc (fold max (map row_id db) 0)"

text \<open>
  Binding a Python value as an SQL parameter: an integer outside 64 bits raises
  OverflowError, a list or a dict is not a supported type.
\<close>

fun bind_param :: "pyval \<Rightarrow> exn option" where
  "bind_param (PInt i) =
     (if - (2 ^ 63) \<le> i \<and> i < 2 ^ 63 then None else Some OverflowError)"
| "bind_param (PList xs) = Some SqliteBindError"
| "bind_param (PDict kvs) = Some SqliteBindError"
| "bind_param v = None"

definition bind_id :: "int option \<Rightarrow> exn option" where
  "bind_id k = (case k of None \<Rightarrow> None | Some i \<Rightarrow> bind_param (PInt i))"

text \<open>The first parameter, in the order of the statement, that cannot be bound.\<close>

fun first_error :: "exn option list \<Rightarrow> exn option" where
  "first_error [] = None"
| "first_error (None # es) = first_error es"
| "first_error (Some e # es) = Some e"

definition log_new_trade ::
  "string \<Rightarrow> string \<Rightarrow> rat \<Rightarrow> int \<Rightarrow> pyval \<Rightarrow> int option \<Rightarrow> pyval \<Rightarrow> int option
     \<Rightarrow> journal \<Rightarrow> exn + journal" where
  "log_new_trade symb side qty entry_id tp tp_id sl sl_id db =
     (case first_error
             [bind_id (Some entry_id), bind_param tp, bind_id tp_id, bind_param sl, bind_id sl_id] of
        Some e \<Rightarrow> Inl e
      | None \<Rightarrow>
          Inr (db @ [\<lparr>row_id = next_id db, symbol = symb, signal = side, position_size = qty,
                      entry_order_id = Some entry_id, tp_order_id = tp_id,
                      entry_price = None, exit_price = None, tp_price = tp,
                      tp_hit = False, closed = False, sl_price = sl, sl_order_id = sl_id\<rparr>]))"

text \<open>
  \<open>update_trade_on_fill\<close> runs two UPDATE statements, one after the other. A comparison
  with \<open>NULL\<close> is never true, so a row without the order identifier does not match.
\<close>

definition entry_fill :: "int \<Rightarrow> rat \<Rightarrow> trade \<Rightarrow> trade" where
  "entry_fill order_id fill_price r =
     (if entry_order_id r = Some order_id \<and> \<not> closed r
      then r\<lparr>entry_price := Some fill_price\<rparr> else r)"

definition tp_fill :: "int \<Rightarrow> rat \<Rightarrow> trade \<Rightarrow> trade" where
  "tp_fill order_id fill_price r =
     (if tp_order_id r = Some order_id \<and> \<not> closed r
      then r\<lparr>exit_price := Some fill_price, closed := True, tp_hit := True\<rparr> else r)"

definition update_trade_on_fill :: "int \<Rightarrow> rat \<Rightarrow> journal \<Rightarrow> journal" where
  "update_trade_on_fill order_id fill_price db =
     map (tp_fill order_id fill_price) (map (entry_fill order_id fill_price) db)"

definition close_trade_in_db :: "nat \<Rightarrow> journal \<Rightarrow> journal" where
  "close_trade_in_db trade_id db =
     map (\<lambda>r. if row_id r = trade_id then r\<lparr>closed := True\<rparr> else r) db"

text \<open>\<open>ORDER BY id DESC LIMIT 1\<close>: the row with the largest key, if there is a row.\<close>

fun order_by_id_desc_limit_1 :: "journal \<Rightarrow> trade option" where
  "order_by_id_desc_limit_1 [] = None"
| "order_by_id_desc_limit_1 (r # rs) =
     (case order_by_id_desc_limit_1 rs of
        None \<Rightarrow> Some r
      | Some r' \<Rightarrow> if row_id r < row_id r' then Some r' else Some r)"

definition get_active_trade :: "string \<Rightarrow> journal \<Rightarrow> trade option" where
  "get_active_trade symb db =
     order_by_id_desc_limit_1 (filter (\<lambda>r. symbol r = symb \<and> \<not> closed r) db)"

definition get_last_closed_trade :: "string \<Rightarrow> journal \<Rightarrow> trade option" where
  "get_last_closed_trade symb db =
     order_by_id_desc_limit_1 (filter (\<lambda>r. symbol r = symb \<and> closed r) db)"

section \<open>The broker session\<close>

text \<open>
  Contracts and orders are the data objects of the client library. A fresh order has
  \<open>orderId = 0\<close>; the session assigns the identifier when the order is placed.
\<close>

datatype contract = Forex string | Stock string string string

record order =
  orderId :: int
  action :: string
  totalQuantity :: rat
  orderType :: string
  lmtPrice :: "rat option"

definition MarketOrder :: "string \<Rightarrow> rat \<Rightarrow> order" where
  "MarketOrder act quantity =
     \<lparr>orderId = 0, action = act, totalQuantity = quantity, orderType = ''MKT'', lmtPrice = None\<rparr>"

definition LimitOrder :: "string \<Rightarrow> rat \<Rightarrow> rat \<Rightarrow> order" where
  "LimitOrder act quantity price =
     \<lparr>orderId = 0, action = act, totalQuantity = quantity, orderType = ''LMT'',
      lmtPrice = Some price\<rparr>"

text \<open>
  The session object \<open>ib\<close> belongs to a library outside the repository, and so do the
  \<open>Forex\<close> constructor (which may reject a pair) and Python's \<open>float\<close>. They are
  parameters of the model: \<open>'g\<close> is the state of the session, and every operation that
  can raise returns the exception together with the state it leaves behind.
\<close>

record 'g env =
  isConnected :: "'g \<Rightarrow> bool"
  connect :: "'g \<Rightarrow> (exn \<times> 'g) + 'g"
  placeOrder :: "'g \<Rightarrow> contract \<Rightarrow> order \<Rightarrow> (exn \<times> 'g) + (int \<times> 'g)"
  orders :: "'g \<Rightarrow> order list"
  cancelOrder :: "'g \<Rightarrow> order \<Rightarrow> (exn \<times> 'g) + 'g"
  new_Forex :: "string \<Rightarrow> exn + contract"
  py_float :: "pyval \<Rightarrow> exn + rat"

text \<open>The calls the program issues to the session, in order.\<close>

datatype call = PlaceOrder contract order | CancelOrder order

text \<open>
  The state the handlers work on: the journal, the session, the calls issued so far and
  the list \<open>trade_log_ui\<close> (symbol and action of each entry; its time stamp and the
  printed order are left out). Messages to the logger have no effect on any of these and
  are not modelled.
\<close>

record 'g state =
  trades :: journal
  ib :: 'g
  calls :: "call list"
  trade_log_ui :: "(string \<times> string) list"

type_synonym 'g result = "(exn \<times> 'g state) + 'g state"

text \<open>The state a handler leaves behind, whether it returned or raised.\<close>

definition after :: "'g result \<Rightarrow> 'g state" where
  "after r = (case r of Inl (e, s) \<Rightarrow> s | Inr s \<Rightarrow> s)"

definition connect_ibkr :: "'g env \<Rightarrow> 'g state \<Rightarrow> 'g result" where
  "connect_ibkr E s =
     (if isConnected E (ib s) then Inr s
      else case connect E (ib s) of
             Inl (e, g) \<Rightarrow> Inl (e, s\<lparr>ib := g\<rparr>)
           | Inr g \<Rightarrow> Inr (s\<lparr>ib := g\<rparr>))"

text \<open>
  \<open>Forex(sym) if '/' in symbol else Stock(sym, 'SMART', 'USD')\<close>. In the
  definitions below the argument \<open>symbol\<close> of the handlers is written \<open>symbol'\<close> and
  the local \<open>sym\<close> is written \<open>symb\<close>: the plain names are taken by the column
  \<open>symbol\<close> and by a constant of the library.
\<close>

definition contract_for :: "'g env \<Rightarrow> string \<Rightarrow> string \<Rightarrow> exn + contract" where
  "contract_for E symbol' symb =
     (if CHR ''/'' \<in> set symbol' then new_Forex E symb else Inr (Stock symb ''SMART'' ''USD''))"

text \<open>\<open>ib.placeOrder(contract, order)\<close>, recorded among the calls.\<close>

definition place :: "'g env \<Rightarrow> contract \<Rightarrow> order \<Rightarrow> 'g state \<Rightarrow> (exn \<times> 'g state) + (int \<times> 'g state)" where
  "place E c ord s =
     (let s' = s\<lparr>calls := calls s @ [PlaceOrder c ord]\<rparr>
      in case placeOrder E (ib s) c ord of
           Inl (e, g) \<Rightarrow> Inl (e, s'\<lparr>ib := g\<rparr>)
         | Inr (oid, g) \<Rightarrow> Inr (oid, s'\<lparr>ib := g\<rparr>))"

section \<open>The signal processor\<close>

text \<open>
  \<open>close_position\<close>, lines 205 to 212: the attempt to cancel the take-profit order. The
  identifier read from the journal is used as an index into the list \<open>ib.orders()\<close>.
  Whatever the attempt raises is caught and only logged.
\<close>

definition cancel_tp :: "'g env \<Rightarrow> trade \<Rightarrow> 'g state \<Rightarrow> 'g state" where
  "cancel_tp E active_trade s =
     (case tp_order_id active_trade of
        None \<Rightarrow> s
      | Some k \<Rightarrow>
          if k = 0 then s
          else (case py_index (orders E (ib s)) k of
                  None \<Rightarrow> s
                | Some ord \<Rightarrow>
                    (let s' = s\<lparr>calls := calls s @ [CancelOrder ord]\<rparr>
                     in case cancelOrder E (ib s) ord of
                          Inl (e, g) \<Rightarrow> s'\<lparr>ib := g\<rparr>
                        | Inr g \<Rightarrow> s'\<lparr>ib := g\<rparr>)))"

definition close_position :: "'g env \<Rightarrow> string \<Rightarrow> 'g state \<Rightarrow> 'g result" where
  "close_position E symbol' s0 =
     (case connect_ibkr E s0 of
        Inl x \<Rightarrow> Inl x
      | Inr s1 \<Rightarrow>
          (let symb = normalize symbol' in
           case get_active_trade symb (trades s1) of
             None \<Rightarrow> Inr s1
           | Some active_trade \<Rightarrow>
               (let s2 = cancel_tp E active_trade s1;
                    side = signal active_trade;
                    quantity = position_size active_trade;
                    action_to_close = (if side = ''buy'' then ''SELL'' else ''BUY'')
                in case contract_for E symbol' symb of
                     Inl e \<Rightarrow> Inl (e, s2)
                   | Inr c \<Rightarrow>
                       (case place E c (MarketOrder action_to_close quantity) s2 of
                          Inl x \<Rightarrow> Inl x
                        | Inr (close_id, s3) \<Rightarrow>
                            Inr (s3\<lparr>trades := close_trade_in_db (row_id active_trade) (trades s3),
                                    trade_log_ui := trade_log_ui s3 @
                                      [(symb, ''Close by Signal ('' @ action_to_close @ '')'')]\<rparr>)))))"

text \<open>Lines 140 and 141: the test of the re-entry guard.\<close>

definition reentry_blocked :: "string \<Rightarrow> string \<Rightarrow> journal \<Rightarrow> bool" where
  "reentry_blocked symb side db =
     (case get_last_closed_trade symb db of
        None \<Rightarrow> False
      | Some last_closed \<Rightarrow> tp_hit last_closed \<and> signal last_closed = side)"

text \<open>
  Lines 165 to 176 and 179 to 190 are one block, written once for \<open>tp\<close> and once for
  \<open>sl\<close>: when the target is truthy, a limit order on the exit side is placed at
  \<open>float(target)\<close> and its identifier is kept; otherwise the identifier stays \<open>None\<close>.
\<close>

definition exit_order ::
  "'g env \<Rightarrow> string \<Rightarrow> contract \<Rightarrow> string \<Rightarrow> string \<Rightarrow> rat \<Rightarrow> pyval \<Rightarrow> 'g state
     \<Rightarrow> (exn \<times> 'g state) + (int option \<times> 'g state)" where
  "exit_order E label c symb side quantity target s =
     (if truthy target then
        (case py_float E target of
           Inl e \<Rightarrow> Inl (e, s)
         | Inr price \<Rightarrow>
             (let exit_act = (if side = ''buy'' then ''SELL'' else ''BUY'')
              in case place E c (LimitOrder exit_act quantity price) s of
                   Inl x \<Rightarrow> Inl x
                 | Inr (oid, s') \<Rightarrow>
                     Inr (Some oid,
                          s'\<lparr>trade_log_ui := trade_log_ui s' @
                                [(symb, label @ '' ('' @ exit_act @ '')'')]\<rparr>)))
      else Inr (None, s))"

text \<open>Lines 157 to 193: the entry order, the two exit orders, then the journal row.\<close>

definition place_and_log ::
  "'g env \<Rightarrow> string \<Rightarrow> string \<Rightarrow> string \<Rightarrow> rat \<Rightarrow> pyval \<Rightarrow> pyval \<Rightarrow> 'g state \<Rightarrow> 'g result" where
  "place_and_log E symbol' symb side quantity tp sl s =
     (case contract_for E symbol' symb of
        Inl e \<Rightarrow> Inl (e, s)
      | Inr c \<Rightarrow>
          (let act = (if side = ''buy'' then ''BUY'' else ''SELL'')
           in case place E c (MarketOrder act quantity) s of
                Inl x \<Rightarrow> Inl x
              | Inr (entry_id, s1) \<Rightarrow>
                  (let s2 = s1\<lparr>trade_log_ui := trade_log_ui s1 @
                                  [(symb, ''Market Order ('' @ act @ '')'')]\<rparr>
                   in case exit_order E ''Take Profit'' c symb side quantity tp s2 of
                        Inl x \<Rightarrow> Inl x
                      | Inr (tp_id, s3) \<Rightarrow>
                          (case exit_order E ''Stop Loss'' c symb side quantity sl s3 of
                             Inl x \<Rightarrow> Inl x
                           | Inr (sl_id, s4) \<Rightarrow>
                               (case log_new_trade symb side quantity entry_id tp tp_id sl sl_id
                                       (trades s4) of
                                  Inl e \<Rightarrow> Inl (e, s4)
                                | Inr db \<Rightarrow> Inr (s4\<lparr>trades := db\<rparr>))))))"

definition open_position ::
  "'g env \<Rightarrow> string \<Rightarrow> string \<Rightarrow> rat \<Rightarrow> pyval \<Rightarrow> pyval \<Rightarrow> 'g state \<Rightarrow> 'g result" where
  "open_position E symbol' side quantity tp sl s0 =
     (case connect_ibkr E s0 of
        Inl x \<Rightarrow> Inl x
      | Inr s1 \<Rightarrow>
          (let symb = normalize symbol' in
           if reentry_blocked symb side (trades s1)
           then Inr (s1\<lparr>trade_log_ui := trade_log_ui s1 @ [(symb, ''RE-ENTRY BLOCKED'')]\<rparr>)
           else (case get_active_trade symb (trades s1) of
                   None \<Rightarrow> place_and_log E symbol' symb side quantity tp sl s1
                 | Some active_trade \<Rightarrow>
                     if signal active_trade = side then Inr s1
                     else (case close_position E symbol' s1 of
                             Inl x \<Rightarrow> Inl x
                           | Inr s2 \<Rightarrow> place_and_log E symbol' symb side quantity tp sl s2))))"

section \<open>Fill events and the webhook\<close>

definition onExecDetails :: "int \<Rightarrow> rat \<Rightarrow> 'g state \<Rightarrow> 'g state" where
  "onExecDetails order_id fill_price s =
     s\<lparr>trades := update_trade_on_fill order_id fill_price (trades s)\<rparr>"

text \<open>
  The two replies of the route: \<open>{'status': 'success'}\<close> with code 200, and
  \<open>{'status': 'error', 'msg': ...}\<close> with code 500 for a caught exception.
\<close>

datatype response = Success200 | Error500 exn

definition respond :: "'g result \<Rightarrow> response \<times> 'g state" where
  "respond r = (case r of Inl (e, s) \<Rightarrow> (Error500 e, s) | Inr s \<Rightarrow> (Success200, s))"

fun as_str :: "pyval \<Rightarrow> string option" where
  "as_str (PStr s) = Some s"
| "as_str v = None"

fun as_number :: "pyval \<Rightarrow> rat option" where
  "as_number (PInt i) = (if - (2 ^ 63) \<le> i \<and> i < 2 ^ 63 then Some (of_int i) else None)"
| "as_number (PFloat q) = Some q"
| "as_number v = None"

text \<open>
  Both handlers start with \<open>connect_ibkr()\<close> and then call \<open>symbol.replace\<close>; no JSON
  value but a string has that method.
\<close>

definition symbol_not_str :: "'g env \<Rightarrow> 'g state \<Rightarrow> 'g result" where
  "symbol_not_str E s =
     (case connect_ibkr E s of
        Inl x \<Rightarrow> Inl x
      | Inr s1 \<Rightarrow> Inl (AttributeError, s1))"

text \<open>
  The route \<open>/webhook\<close>, after the body was parsed. \<open>open_position\<close> is modelled on the
  types its signature announces (\<open>side: str\<close>, \<open>quantity: float\<close>); a body whose
  \<open>symbol\<close> is a string and that carries another kind of value in \<open>side\<close> or
  \<open>quantity\<close> (an integer beyond 64 bits included, which the database cannot bind) is
  outside the model, and the result is \<open>None\<close> there. A body that is
  not a JSON object has no \<open>get\<close>: the AttributeError is caught like any other.
\<close>

definition webhook :: "'g env \<Rightarrow> pyval \<Rightarrow> 'g state \<Rightarrow> (response \<times> 'g state) option" where
  "webhook E data s =
     (case data of
        PDict kvs \<Rightarrow>
          (let act = dict_get kvs ''action'' in
           if act = PStr ''open'' then
             (case as_str (dict_get kvs ''symbol'') of
                None \<Rightarrow> Some (respond (symbol_not_str E s))
              | Some sy \<Rightarrow>
                  (case as_str (dict_get kvs ''side'') of
                     None \<Rightarrow> None
                   | Some sd \<Rightarrow>
                       (case as_number (dict_get kvs ''quantity'') of
                          None \<Rightarrow> None
                        | Some q \<Rightarrow>
                            Some (respond (open_position E sy sd q
                                    (dict_get kvs ''tp'') (dict_get kvs ''sl'') s)))))
           else if act = PStr ''close'' then
             (case as_str (dict_get kvs ''symbol'') of
                None \<Rightarrow> Some (respond (symbol_not_str E s))
              | Some sy \<Rightarrow> Some (respond (close_position E sy s)))
           else Some (Success200, s))
      | _ \<Rightarrow> Some (Error500 AttributeError, s))"

text \<open>
  A serial history: open and close intents and fill events, handled one after the
  other. An exception ends the handling of one intent; the state it left behind is the
  state the next event finds.
\<close>

datatype event = Open string string rat pyval pyval | Close string | Fill int rat

fun step :: "'g env \<Rightarrow> event \<Rightarrow> 'g state \<Rightarrow> 'g state" where
  "step E (Open sy sd q tp sl) s = after (open_position E sy sd q tp sl s)"
| "step E (Close sy) s = after (close_position E sy s)"
| "step E (Fill order_id fill_price) s = onExecDetails order_id fill_price s"

fun run :: "'g env \<Rightarrow> event list \<Rightarrow> 'g state \<Rightarrow> 'g state" where
  "run E [] s = s"
| "run E (ev # evs) s = run E evs (step E ev s)"

text \<open>The number of active rows of a symbol; invariant I1 says it is at most one.\<close>

definition active_count :: "string \<Rightarrow> journal \<Rightarrow> nat" where
  "active_count symb db = length (filter (\<lambda>r. symbol r = symb \<and> \<not> closed r) db)"

section \<open>A simulated session\<close>

text \<open>
  A small session to run the model on: it hands out consecutive order identifiers,
  keeps every order of the session in the order of placement (what \<open>ib.orders()\<close>
  lists), remembers the identifiers it was asked to cancel, and accepts \<open>sim_budget\<close>
  more placements before it starts to refuse them. Its \<open>Forex\<close> wants a pair of six
  letters; its \<open>float\<close> converts numbers and booleans and rejects the rest.
\<close>

record sim =
  sim_connected :: bool
  sim_next :: int
  sim_orders :: "order list"
  sim_cancelled :: "int list"
  sim_budget :: nat

fun sim_float :: "pyval \<Rightarrow> exn + rat" where
  "sim_float (PInt i) = Inr (of_int i)"
| "sim_float (PFloat q) = Inr q"
| "sim_float (PBool b) = Inr (if b then 1 else 0)"
| "sim_float (PStr s) = Inl ValueError"
| "sim_float v = Inl TypeError"

definition sim_place :: "sim \<Rightarrow> contract \<Rightarrow> order \<Rightarrow> (exn \<times> sim) + (int \<times> sim)" where
  "sim_place g c ord =
     (if sim_budget g = 0 then Inl (GatewayError ''rejected'', g)
      else Inr (sim_next g,
                g\<lparr>sim_next := sim_next g + 1,
                  sim_orders := sim_orders g @ [ord\<lparr>orderId := sim_next g\<rparr>],
                  sim_budget := sim_budget g - 1\<rparr>))"

definition sim_env :: "sim env" where
  "sim_env =
     \<lparr>isConnected = sim_connected,
      connect = (\<lambda>g. Inr (g\<lparr>sim_connected := True\<rparr>)),
      placeOrder = sim_place,
      orders = sim_orders,
      cancelOrder = (\<lambda>g ord. Inr (g\<lparr>sim_cancelled := sim_cancelled g @ [orderId ord]\<rparr>)),
      new_Forex = (\<lambda>pair. if length pair = 6 then Inr (Forex pair) else Inl AssertionError),
      py_float = sim_float\<rparr>"

definition sim_start :: "nat \<Rightarrow> sim state" where
  "sim_start n =
     \<lparr>trades = [],
      ib = \<lparr>sim_connected = True, sim_next = 1, sim_orders = [], sim_cancelled = [],
            sim_budget = n\<rparr>,
      calls = [], trade_log_ui = []\<rparr>"

text \<open>
  A journal of one active row, as \<open>Open("EUR/USD", buy, 1000, tp=1.10, sl=1.08)\<close>
  leaves it when the session hands out the identifiers 11, 12 and 13.
\<close>

definition fill_example :: journal where
  "fill_example =
     [\<lparr>row_id = 1, symbol = ''EURUSD'', signal = ''buy'', position_size = 1000,
       entry_order_id = Some 11, tp_order_id = Some 12, entry_price = None,
       exit_price = None, tp_price = PFloat (11/10), tp_hit = False, closed = False,
       sl_price = PFloat (27/25), sl_order_id = Some 13\<rparr>]"

text \<open>A row whose entry and take-profit identifier are the same.\<close>

definition same_id_example :: journal where
  "same_id_example =
     [\<lparr>row_id = 1, symbol = ''EURUSD'', signal = ''buy'', position_size = 1000,
       entry_order_id = Some 5, tp_order_id = Some 5, entry_price = None,
       exit_price = None, tp_price = PFloat (11/10), tp_hit = False, closed = False,
       sl_price = PNone, sl_order_id = None\<rparr>]"

section \<open>Vocabulary of the statements\<close>

text \<open>
  The limit orders among the placements of a list of calls, the limit order that the
  block for one target places (none when the target is falsy or \<open>float\<close> rejects it),
  and the calls issued between two states.
\<close>

fun limit_orders :: "call list \<Rightarrow> order list" where
  "limit_orders [] = []"
| "limit_orders (PlaceOrder c ord # cs) =
     (if orderType ord = ''LMT'' then ord # limit_orders cs else limit_orders cs)"
| "limit_orders (CancelOrder ord # cs) = limit_orders cs"

definition exit_orders :: "'g env \<Rightarrow> string \<Rightarrow> rat \<Rightarrow> pyval \<Rightarrow> order list" where
  "exit_orders E side quantity target =
     (if truthy target then
        (case py_float E target of
           Inl e \<Rightarrow> []
         | Inr price \<Rightarrow> [LimitOrder (if side = ''buy'' then ''SELL'' else ''BUY'') quantity price])
      else [])"


definition issued :: "'g state \<Rightarrow> 'g state \<Rightarrow> call list" where
  "issued s s' = drop (length (calls s)) (calls s')"

text \<open>A history on one symbol: a duplicate, a fill, a reversal, a close and a take-profit.\<close>

definition history_example :: "event list" where
  "history_example =
     [Open ''AAPL'' ''buy'' 100 (PInt 150) (PInt 90),
      Open ''AAPL'' ''buy'' 100 (PInt 150) (PInt 90),
      Fill 1 120,
      Open ''AAPL'' ''sell'' 50 PNone PNone,
      Close ''AAPL'',
      Open ''AAPL'' ''buy'' 10 (PInt 150) PNone,
      Fill 8 150,
      Open ''AAPL'' ''buy'' 10 PNone PNone]"

text \<open>
  States of the simulated session used in the examples: after a take-profit fill closed
  a long position; after one open with both targets; after one open on a session that
  accepts one more placement only; after one open with a take-profit target; after one
  open with a take-profit and a stop-loss target.
\<close>

definition blocked_example :: "sim state" where
  "blocked_example =
     run sim_env [Open ''EUR/USD'' ''buy'' 1000 (PFloat (11/10)) (PFloat (27/25)),
                  Fill 2 (11/10)] (sim_start 10)"

definition opened_example :: "sim state" where
  "opened_example =
     after (open_position sim_env ''EUR/USD'' ''buy'' 1000 (PFloat (11/10)) (PFloat (27/25))
              (sim_start 10))"


definition take_profit_example :: "sim state" where
  "take_profit_example =
     after (open_position sim_env ''AAPL'' ''buy'' 100 (PInt 150) PNone (sim_start 10))"

definition bracket_example :: "sim state" where
  "bracket_example =
     after (open_position sim_env ''AAPL'' ''buy'' 100 (PInt 150) (PInt 90) (sim_start 10))"


section \<open>Fill reconciliation\<close>

lemma length_update_trade_on_fill:
  "length (update_trade_on_fill order_id fill_price db) = length db"
  by (simp add: update_trade_on_fill_def)

lemma nth_update_trade_on_fill:
  "i < length db \<Longrightarrow>
   update_trade_on_fill order_id fill_price db ! i =
     tp_fill order_id fill_price (entry_fill order_id fill_price (db ! i))"
  by (simp add: update_trade_on_fill_def)

text \<open>
  Claim C5. When the identifier of a fill is the \<open>tp_order_id\<close> of a row that is not
  closed, \<open>update_trade_on_fill\<close> leaves that row (same place, same key) with
  \<open>exit_price\<close> set to the fill price, \<open>closed\<close> true and \<open>tp_hit\<close> true.
\<close>

theorem update_trade_on_fill_take_profit:
  assumes "i < length db" and "\<not> closed (db ! i)" and "tp_order_id (db ! i) = Some order_id"
  shows "length (update_trade_on_fill order_id fill_price db) = length db \<and>
         row_id (update_trade_on_fill order_id fill_price db ! i) = row_id (db ! i) \<and>
         exit_price (update_trade_on_fill order_id fill_price db ! i) = Some fill_price \<and>
         closed (update_trade_on_fill order_id fill_price db ! i) \<and>
         tp_hit (update_trade_on_fill order_id fill_price db ! i)"
  using assms by (simp add: nth_update_trade_on_fill tp_fill_def entry_fill_def
      length_update_trade_on_fill)

theorem update_trade_on_fill_take_profit_witness:
  "(0::nat) < length fill_example \<and> \<not> closed (fill_example ! 0) \<and>
   tp_order_id (fill_example ! 0) = Some 12 \<and>
   exit_price (update_trade_on_fill 12 (5/4) fill_example ! 0) = Some (5/4) \<and>
   closed (update_trade_on_fill 12 (5/4) fill_example ! 0) \<and>
   tp_hit (update_trade_on_fill 12 (5/4) fill_example ! 0)"
  using update_trade_on_fill_take_profit [of 0 fill_example 12 "5/4"]
  by (simp add: fill_example_def)

text \<open>
  Claim C6, as amended. When the identifier of a fill is the \<open>entry_order_id\<close> of a row
  that is not closed, that row gets \<open>entry_price\<close> set to the fill price. When the
  identifier is not also the row's \<open>tp_order_id\<close>, nothing else of the row changes, and
  \<open>closed\<close> keeps its value. When it is, the second UPDATE matches the row as well: the
  row also gets \<open>exit_price\<close> set, and \<open>closed\<close> and \<open>tp_hit\<close> become true.
\<close>

theorem update_trade_on_fill_entry:
  assumes "i < length db" and "\<not> closed (db ! i)"
    and "entry_order_id (db ! i) = Some order_id"
  shows "entry_price (update_trade_on_fill order_id fill_price db ! i) = Some fill_price \<and>
         update_trade_on_fill order_id fill_price db ! i =
           (if tp_order_id (db ! i) = Some order_id
            then (db ! i)\<lparr>entry_price := Some fill_price, exit_price := Some fill_price,
                           closed := True, tp_hit := True\<rparr>
            else (db ! i)\<lparr>entry_price := Some fill_price\<rparr>)"
  using assms by (simp add: nth_update_trade_on_fill tp_fill_def entry_fill_def)

text \<open>
  The claim as stated fails on a row that carries one identifier in both columns: the
  fill of order 5 sets the entry price and closes the row.
\<close>

theorem update_trade_on_fill_entry_counterexample:
  "\<not> closed (same_id_example ! 0) \<and>
   entry_order_id (same_id_example ! 0) = Some 5 \<and>
   entry_price (update_trade_on_fill 5 (2469/2000) same_id_example ! 0) = Some (2469/2000) \<and>
   closed (update_trade_on_fill 5 (2469/2000) same_id_example ! 0) \<and>
   tp_hit (update_trade_on_fill 5 (2469/2000) same_id_example ! 0)"
  by (simp add: same_id_example_def update_trade_on_fill_def tp_fill_def entry_fill_def)

theorem update_trade_on_fill_entry_witness:
  "(0::nat) < length fill_example \<and> \<not> closed (fill_example ! 0) \<and>
   entry_order_id (fill_example ! 0) = Some 11 \<and>
   tp_order_id (fill_example ! 0) = Some 12 \<and>
   update_trade_on_fill 11 (2469/2000) fill_example ! 0 =
     (fill_example ! 0)\<lparr>entry_price := Some (2469/2000)\<rparr> \<and>
   \<not> closed (update_trade_on_fill 11 (2469/2000) fill_example ! 0)"
proof -
  have h: "(0::nat) < length fill_example" "\<not> closed (fill_example ! 0)"
    "entry_order_id (fill_example ! 0) = Some 11" "tp_order_id (fill_example ! 0) = Some 12"
    by (simp_all add: fill_example_def)
  from update_trade_on_fill_entry [OF h(1) h(2) h(3), of "2469/2000"] h
  show ?thesis by simp
qed

lemma fill_row_unmatched:
  "closed r \<or> (entry_order_id r \<noteq> Some order_id \<and> tp_order_id r \<noteq> Some order_id) \<Longrightarrow>
   tp_fill order_id fill_price (entry_fill order_id fill_price r) = r"
  by (auto simp: tp_fill_def entry_fill_def)

lemma update_trade_on_fill_noop:
  assumes "\<forall>r \<in> set db. closed r \<or>
             (entry_order_id r \<noteq> Some order_id \<and> tp_order_id r \<noteq> Some order_id)"
  shows "update_trade_on_fill order_id fill_price db = db"
proof -
  have "map (\<lambda>r. tp_fill order_id fill_price (entry_fill order_id fill_price r)) db =
        map (\<lambda>r. r) db"
    using assms by (intro map_cong refl fill_row_unmatched) auto
  then show ?thesis
    by (simp add: update_trade_on_fill_def comp_def)
qed

text \<open>
  Claim C7. When the identifier of a fill is neither the \<open>entry_order_id\<close> nor the
  \<open>tp_order_id\<close> of any row that is not closed, \<open>update_trade_on_fill\<close> returns the
  journal as it was. The stop-loss identifiers play no part: the same holds after they
  are replaced by any others, the identifier of the fill included.
\<close>

theorem update_trade_on_fill_unmatched:
  assumes "\<forall>r \<in> set db. \<not> closed r \<longrightarrow>
             entry_order_id r \<noteq> Some order_id \<and> tp_order_id r \<noteq> Some order_id"
  shows "update_trade_on_fill order_id fill_price db = db \<and>
         update_trade_on_fill order_id fill_price (map (\<lambda>r. r\<lparr>sl_order_id := f r\<rparr>) db) =
           map (\<lambda>r. r\<lparr>sl_order_id := f r\<rparr>) db"
proof
  show "update_trade_on_fill order_id fill_price db = db"
    using assms by (intro update_trade_on_fill_noop) auto
  show "update_trade_on_fill order_id fill_price (map (\<lambda>r. r\<lparr>sl_order_id := f r\<rparr>) db) =
          map (\<lambda>r. r\<lparr>sl_order_id := f r\<rparr>) db"
    using assms by (intro update_trade_on_fill_noop) auto
qed

theorem update_trade_on_fill_unmatched_witness:
  "\<not> closed (fill_example ! 0) \<and> length fill_example = 1 \<and>
   entry_order_id (fill_example ! 0) \<noteq> Some 13 \<and>
   tp_order_id (fill_example ! 0) \<noteq> Some 13 \<and>
   sl_order_id (fill_example ! 0) = Some 13 \<and>
   update_trade_on_fill 13 (27/25) fill_example = fill_example"
  using update_trade_on_fill_unmatched [of fill_example 13 "27/25" sl_order_id]
  by (simp add: fill_example_def)

section \<open>The handlers, step by step\<close>

lemma connect_ibkr_Inr:
  "connect_ibkr E s = Inr s1 \<Longrightarrow>
   trades s1 = trades s \<and> calls s1 = calls s \<and> trade_log_ui s1 = trade_log_ui s"
  by (auto simp: connect_ibkr_def split: if_splits sum.splits)

lemma connect_ibkr_Inl:
  "connect_ibkr E s = Inl (e, s1) \<Longrightarrow>
   trades s1 = trades s \<and> calls s1 = calls s \<and> trade_log_ui s1 = trade_log_ui s"
  by (auto simp: connect_ibkr_def split: if_splits sum.splits)

lemma place_Inr:
  "place E c ord s = Inr (oid, s') \<Longrightarrow>
   trades s' = trades s \<and> calls s' = calls s @ [PlaceOrder c ord] \<and>
   trade_log_ui s' = trade_log_ui s"
  by (auto simp: place_def Let_def split: sum.splits)

lemma place_Inl:
  "place E c ord s = Inl (e, s') \<Longrightarrow>
   trades s' = trades s \<and> calls s' = calls s @ [PlaceOrder c ord] \<and>
   trade_log_ui s' = trade_log_ui s"
  by (auto simp: place_def Let_def split: sum.splits)

lemma cancel_tp_trades: "trades (cancel_tp E a s) = trades s"
  by (auto simp: cancel_tp_def Let_def split: option.splits sum.splits)

lemma cancel_tp_calls:
  "calls (cancel_tp E a s) = calls s \<or>
   (\<exists>ord. calls (cancel_tp E a s) = calls s @ [CancelOrder ord])"
  by (auto simp: cancel_tp_def Let_def split: option.splits sum.splits)

lemma close_position_Inl:
  "close_position E sy s = Inl (e, s') \<Longrightarrow> trades s' = trades s"
  by (auto simp: close_position_def Let_def cancel_tp_trades
      dest!: connect_ibkr_Inr connect_ibkr_Inl place_Inl place_Inr
      split: sum.splits option.splits prod.splits)

lemma close_position_Inr:
  "close_position E sy s = Inr s' \<Longrightarrow>
   trades s' = (case get_active_trade (normalize sy) (trades s) of
                  None \<Rightarrow> trades s
                | Some a \<Rightarrow> close_trade_in_db (row_id a) (trades s))"
  by (auto simp: close_position_def Let_def cancel_tp_trades
      dest!: connect_ibkr_Inr connect_ibkr_Inl place_Inl place_Inr
      split: sum.splits option.splits prod.splits)

lemma limit_orders_append: "limit_orders (xs @ ys) = limit_orders xs @ limit_orders ys"
  by (induction xs rule: limit_orders.induct) auto

lemma limit_orders_exit:
  "limit_orders (map (PlaceOrder c) (exit_orders E side q target)) = exit_orders E side q target"
  by (auto simp: exit_orders_def LimitOrder_def split: sum.splits)

lemma limit_orders_market:
  "limit_orders (PlaceOrder c (MarketOrder a q) # cs) = limit_orders cs"
  by (simp add: MarketOrder_def)

lemma exit_order_Inr:
  "exit_order E l c symb side q target s = Inr (k, s') \<Longrightarrow>
   trades s' = trades s \<and>
   calls s' = calls s @ map (PlaceOrder c) (exit_orders E side q target) \<and>
   (truthy target \<or> k = None)"
  by (auto simp: exit_order_def exit_orders_def Let_def
      dest!: place_Inr split: if_splits sum.splits prod.splits)

lemma exit_order_Inl:
  "exit_order E l c symb side q target s = Inl (e, s') \<Longrightarrow>
   trades s' = trades s \<and> truthy target \<and>
   (calls s' = calls s \<or> calls s' = calls s @ map (PlaceOrder c) (exit_orders E side q target))"
  by (auto simp: exit_order_def exit_orders_def Let_def
      dest!: place_Inl split: if_splits sum.splits prod.splits)

lemma log_new_trade_Inr:
  "log_new_trade symb side q entry_id tp tp_id sl sl_id db = Inr db' \<Longrightarrow>
   db' = db @ [\<lparr>row_id = next_id db, symbol = symb, signal = side, position_size = q,
                entry_order_id = Some entry_id, tp_order_id = tp_id,
                entry_price = None, exit_price = None, tp_price = tp,
                tp_hit = False, closed = False, sl_price = sl, sl_order_id = sl_id\<rparr>]"
  by (auto simp: log_new_trade_def split: option.splits)

lemma place_and_log_Inl:
  assumes "place_and_log E sy symb side q tp sl s = Inl (e, s')"
  shows "trades s' = trades s \<and>
         (\<exists>cs. calls s' = calls s @ cs \<and>
               prefix (limit_orders cs) (exit_orders E side q tp @ exit_orders E side q sl))"
  using assms
  apply (simp add: place_and_log_def Let_def split: sum.splits prod.splits split del: if_split)
      apply (auto dest!: place_Inl place_Inr exit_order_Inl exit_order_Inr
      simp: limit_orders_append limit_orders_exit limit_orders_market
      simp del: limit_orders.simps(2) split del: if_split)
  done

lemma place_and_log_Inr:
  assumes "place_and_log E sy symb side q tp sl s = Inr s'"
  shows "\<exists>c entry_id tp_id sl_id.
           contract_for E sy symb = Inr c \<and>
           log_new_trade symb side q entry_id tp tp_id sl sl_id (trades s) = Inr (trades s') \<and>
           (truthy tp \<or> tp_id = None) \<and> (truthy sl \<or> sl_id = None) \<and>
           calls s' = calls s @ PlaceOrder c (MarketOrder (if side = ''buy'' then ''BUY'' else ''SELL'') q)
                        # map (PlaceOrder c) (exit_orders E side q tp @ exit_orders E side q sl)"
  using assms
  apply (simp add: place_and_log_def Let_def split: sum.splits prod.splits split del: if_split)
  subgoal for c p1 entry_id s1 p2 tp_id s3 p3 sl_id s4 db
    apply (rule exI [of _ entry_id], rule exI [of _ tp_id], rule exI [of _ sl_id])
    apply (auto dest!: place_Inr exit_order_Inr split del: if_split)
    done
  done

lemma cancel_tp_limit:
  "\<exists>cc. calls (cancel_tp E a s) = calls s @ cc \<and> limit_orders cc = []"
  using cancel_tp_calls [of E a s] by auto

lemma close_position_calls:
  "\<exists>cs. calls (after (close_position E sy s)) = calls s @ cs \<and> limit_orders cs = []"
proof (cases "connect_ibkr E s")
  case (Inl x)
  then show ?thesis
    using connect_ibkr_Inl [of E s "fst x" "snd x"]
    by (auto simp: close_position_def after_def split: prod.splits)
next
  case (Inr s1)
  then have c1: "calls s1 = calls s" by (simp add: connect_ibkr_Inr)
  show ?thesis
  proof (cases "get_active_trade (normalize sy) (trades s1)")
    case None
    then show ?thesis using Inr c1 by (simp add: close_position_def after_def)
  next
    case (Some a)
    obtain cc where cc: "calls (cancel_tp E a s1) = calls s @ cc" "limit_orders cc = []"
      using cancel_tp_limit [of E a s1] c1 by auto
    show ?thesis
    proof (cases "contract_for E sy (normalize sy)")
      case (Inl e)
      then show ?thesis using Inr Some cc
        by (simp add: close_position_def after_def Let_def)
    next
      case c: (Inr c)
      let ?ord = "MarketOrder (if signal a = ''buy'' then ''SELL'' else ''BUY'') (position_size a)"
      have "calls (after (close_position E sy s)) = calls s @ cc @ [PlaceOrder c ?ord]"
        using Inr Some c cc(1)
        by (auto simp: close_position_def after_def Let_def
            dest!: place_Inl place_Inr split: sum.splits prod.splits split del: if_split)
      moreover have "limit_orders (cc @ [PlaceOrder c ?ord]) = []"
        using cc(2) by (simp add: limit_orders_append limit_orders_market del: limit_orders.simps(2))
      ultimately show ?thesis by blast
    qed
  qed
qed

lemma open_position_cases [consumes 1, case_names conn_fail blocked duplicate fresh rev_fail reversal]:
  assumes "r = open_position E sy side q tp sl s"
  obtains
    (conn_fail) e s1 where "connect_ibkr E s = Inl (e, s1)" "r = Inl (e, s1)"
  | (blocked) s1 where "connect_ibkr E s = Inr s1"
      "reentry_blocked (normalize sy) side (trades s)"
      "r = Inr (s1\<lparr>trade_log_ui := trade_log_ui s1 @ [(normalize sy, ''RE-ENTRY BLOCKED'')]\<rparr>)"
  | (duplicate) s1 a where "connect_ibkr E s = Inr s1"
      "\<not> reentry_blocked (normalize sy) side (trades s)"
      "get_active_trade (normalize sy) (trades s) = Some a" "signal a = side" "r = Inr s1"
  | (fresh) s1 where "connect_ibkr E s = Inr s1"
      "\<not> reentry_blocked (normalize sy) side (trades s)"
      "get_active_trade (normalize sy) (trades s) = None"
      "r = place_and_log E sy (normalize sy) side q tp sl s1"
  | (rev_fail) s1 a e s2 where "connect_ibkr E s = Inr s1"
      "\<not> reentry_blocked (normalize sy) side (trades s)"
      "get_active_trade (normalize sy) (trades s) = Some a" "signal a \<noteq> side"
      "close_position E sy s1 = Inl (e, s2)" "r = Inl (e, s2)"
  | (reversal) s1 a s2 where "connect_ibkr E s = Inr s1"
      "\<not> reentry_blocked (normalize sy) side (trades s)"
      "get_active_trade (normalize sy) (trades s) = Some a" "signal a \<noteq> side"
      "close_position E sy s1 = Inr s2"
      "r = place_and_log E sy (normalize sy) side q tp sl s2"
proof (cases "connect_ibkr E s")
  case (Inl x)
  then show ?thesis using assms conn_fail [of "fst x" "snd x"]
    by (simp add: open_position_def)
next
  case (Inr s1)
  then have eq: "trades s1 = trades s" by (simp add: connect_ibkr_Inr)
  show ?thesis
  proof (cases "reentry_blocked (normalize sy) side (trades s)")
    case True
    then show ?thesis using assms Inr eq blocked [of s1]
      by (simp add: open_position_def)
  next
    case nb: False
    show ?thesis
    proof (cases "get_active_trade (normalize sy) (trades s)")
      case None
      then show ?thesis using assms Inr eq nb fresh [of s1]
        by (simp add: open_position_def)
    next
      case (Some a)
      show ?thesis
      proof (cases "signal a = side")
        case True
        then show ?thesis using assms Inr eq nb Some duplicate [of s1 a]
          by (simp add: open_position_def)
      next
        case ne: False
        show ?thesis
        proof (cases "close_position E sy s1")
          case (Inl x)
          then show ?thesis using assms Inr eq nb Some ne rev_fail [of s1 a "fst x" "snd x"]
            by (simp add: open_position_def)
        next
          case (Inr s2)
          then show ?thesis using assms \<open>connect_ibkr E s = Inr s1\<close> eq nb Some ne reversal [of s1 a s2]
            by (simp add: open_position_def)
        qed
      qed
    qed
  qed
qed

lemma after_Inl [simp]: "after (Inl x) = snd x"
  by (simp add: after_def split: prod.splits)

lemma after_Inr [simp]: "after (Inr s) = s"
  by (simp add: after_def)

lemma open_position_blocked:
  assumes "reentry_blocked (normalize sy) side (trades s)"
  shows "trades (after (open_position E sy side q tp sl s)) = trades s \<and>
         calls (after (open_position E sy side q tp sl s)) = calls s"
proof -
  define r where "r = open_position E sy side q tp sl s"
  then have "trades (after r) = trades s \<and> calls (after r) = calls s"
  proof (cases rule: open_position_cases)
    case (conn_fail e s1)
    then show ?thesis by (simp add: connect_ibkr_Inl)
  next
    case (blocked s1)
    then show ?thesis by (simp add: connect_ibkr_Inr)
  qed (use assms in simp_all)
  then show ?thesis by (simp add: r_def)
qed

lemma open_position_duplicate:
  assumes "get_active_trade (normalize sy) (trades s) = Some a" and "signal a = side"
  shows "trades (after (open_position E sy side q tp sl s)) = trades s \<and>
         calls (after (open_position E sy side q tp sl s)) = calls s"
proof -
  define r where "r = open_position E sy side q tp sl s"
  then have "trades (after r) = trades s \<and> calls (after r) = calls s"
  proof (cases rule: open_position_cases)
    case (conn_fail e s1)
    then show ?thesis by (simp add: connect_ibkr_Inl)
  next
    case (blocked s1)
    then show ?thesis by (simp add: connect_ibkr_Inr)
  next
    case (duplicate s1 a)
    then show ?thesis by (simp add: connect_ibkr_Inr)
  qed (use assms in simp_all)
  then show ?thesis by (simp add: r_def)
qed

lemma place_and_log_calls:
  "\<exists>cs. calls (after (place_and_log E sy symb side q tp sl s)) = calls s @ cs \<and>
        prefix (limit_orders cs) (exit_orders E side q tp @ exit_orders E side q sl)"
proof (cases "place_and_log E sy symb side q tp sl s")
  case (Inl x)
  then show ?thesis
    using place_and_log_Inl [of E sy symb side q tp sl s "fst x" "snd x"] by auto
next
  case (Inr s')
  from place_and_log_Inr [OF this] obtain c where
    "calls s' = calls s @ PlaceOrder c (MarketOrder (if side = ''buy'' then ''BUY'' else ''SELL'') q)
                        # map (PlaceOrder c) (exit_orders E side q tp @ exit_orders E side q sl)"
    by blast
  moreover have "limit_orders (PlaceOrder c (MarketOrder (if side = ''buy'' then ''BUY'' else ''SELL'') q)
                        # map (PlaceOrder c) (exit_orders E side q tp @ exit_orders E side q sl))
                 = exit_orders E side q tp @ exit_orders E side q sl"
    by (simp add: limit_orders_market limit_orders_append limit_orders_exit
        del: limit_orders.simps(2))
  ultimately show ?thesis using Inr by (metis after_Inr prefix_order.order_refl)
qed

lemma open_position_calls:
  "\<exists>cs. calls (after (open_position E sy side q tp sl s)) = calls s @ cs \<and>
        prefix (limit_orders cs) (exit_orders E side q tp @ exit_orders E side q sl)"
proof -
  define r where "r = open_position E sy side q tp sl s"
  then have "\<exists>cs. calls (after r) = calls s @ cs \<and>
        prefix (limit_orders cs) (exit_orders E side q tp @ exit_orders E side q sl)"
  proof (cases rule: open_position_cases)
    case (conn_fail e s1)
    then show ?thesis by (simp add: connect_ibkr_Inl)
  next
    case (blocked s1)
    then show ?thesis by (simp add: connect_ibkr_Inr)
  next
    case (duplicate s1 a)
    then show ?thesis by (simp add: connect_ibkr_Inr)
  next
    case (fresh s1)
    then show ?thesis
      using place_and_log_calls [of E sy "normalize sy" side q tp sl s1]
      by (simp add: connect_ibkr_Inr)
  next
    case (rev_fail s1 a e s2)
    then show ?thesis
      using close_position_calls [of E sy s1]
      by (auto simp: connect_ibkr_Inr)
  next
    case (reversal s1 a s2)
    obtain cs1 where cs1: "calls s2 = calls s @ cs1" "limit_orders cs1 = []"
      using close_position_calls [of E sy s1] reversal(1,5) by (auto simp: connect_ibkr_Inr)
    obtain cs2 where cs2: "calls (after r) = calls s2 @ cs2"
        "prefix (limit_orders cs2) (exit_orders E side q tp @ exit_orders E side q sl)"
      using place_and_log_calls [of E sy "normalize sy" side q tp sl s2] reversal(6) by auto
    have "calls (after r) = calls s @ (cs1 @ cs2)" using cs1 cs2 by simp
    moreover have "limit_orders (cs1 @ cs2) = limit_orders cs2"
      using cs1(2) by (simp add: limit_orders_append)
    ultimately show ?thesis using cs2(2) by metis
  qed
  then show ?thesis by (simp add: r_def)
qed

lemma issued_append: "calls s' = calls s @ cs \<Longrightarrow> issued s s' = cs"
  by (simp add: issued_def)

lemma open_position_failure:
  assumes "open_position E sy side q tp sl s = Inl (e, s')"
  shows "trades s' = trades s \<or>
         (\<exists>a. get_active_trade (normalize sy) (trades s) = Some a \<and> signal a \<noteq> side \<and>
              trades s' = close_trade_in_db (row_id a) (trades s))"
proof -
  define r where "r = open_position E sy side q tp sl s"
  then show ?thesis
  proof (cases rule: open_position_cases)
    case (conn_fail e1 s1)
    then show ?thesis using assms r_def by (auto simp: connect_ibkr_Inl)
  next
    case (blocked s1)
    then show ?thesis using assms r_def by simp
  next
    case (duplicate s1 a)
    then show ?thesis using assms r_def by simp
  next
    case (fresh s1)
    then have "place_and_log E sy (normalize sy) side q tp sl s1 = Inl (e, s')"
      using assms r_def by simp
    from place_and_log_Inl [OF this] fresh(1) show ?thesis by (simp add: connect_ibkr_Inr)
  next
    case (rev_fail s1 a e1 s2)
    then have "close_position E sy s1 = Inl (e, s')" using assms r_def by simp
    from close_position_Inl [OF this] rev_fail(1) show ?thesis by (simp add: connect_ibkr_Inr)
  next
    case (reversal s1 a s2)
    then have "place_and_log E sy (normalize sy) side q tp sl s2 = Inl (e, s')"
      using assms r_def by simp
    from place_and_log_Inl [OF this] have "trades s' = trades s2" by simp
    moreover have "trades s2 = close_trade_in_db (row_id a) (trades s)"
      using close_position_Inr [OF reversal(5)] reversal(1,3) by (simp add: connect_ibkr_Inr)
    ultimately show ?thesis using reversal(3,4) by simp
  qed
qed


section \<open>Rows, keys and the number of active rows\<close>

lemma fold_max_ge: "(a::nat) \<le> fold max xs a"
  by (induction xs arbitrary: a) (auto intro: order_trans [OF max.cobounded2])

lemma fold_max_mem: "x \<in> set xs \<Longrightarrow> (x::nat) \<le> fold max xs a"
proof (induction xs arbitrary: a)
  case Nil
  then show ?case by simp
next
  case (Cons y ys)
  then show ?case
    using fold_max_ge [of "max y a" ys] by auto
qed

lemma next_id_gt: "r \<in> set db \<Longrightarrow> row_id r < next_id db"
  using fold_max_mem [of "row_id r" "map row_id db" 0] by (simp add: next_id_def less_Suc_eq_le)

lemma order_by_id_None: "order_by_id_desc_limit_1 xs = None \<longleftrightarrow> xs = []"
  by (induction xs) (auto split: option.splits)

lemma order_by_id_mem: "order_by_id_desc_limit_1 xs = Some r \<Longrightarrow> r \<in> set xs"
  by (induction xs arbitrary: r) (auto split: option.splits if_splits)

lemma order_by_id_snoc:
  "\<forall>x \<in> set xs. row_id x < row_id r \<Longrightarrow> order_by_id_desc_limit_1 (xs @ [r]) = Some r"
  by (induction xs) auto

lemma get_active_trade_Some:
  "get_active_trade symb db = Some a \<Longrightarrow> a \<in> set db \<and> symbol a = symb \<and> \<not> closed a"
  using order_by_id_mem [of "filter (\<lambda>r. symbol r = symb \<and> \<not> closed r) db" a]
  by (simp add: get_active_trade_def)

lemma get_active_trade_None:
  "get_active_trade symb db = None \<longleftrightarrow> active_count symb db = 0"
  by (simp add: get_active_trade_def active_count_def order_by_id_None)

lemma get_active_trade_snoc:
  assumes "symbol r = symb" and "\<not> closed r" and "\<forall>x \<in> set db. row_id x < row_id r"
  shows "get_active_trade symb (db @ [r]) = Some r"
  using assms by (simp add: get_active_trade_def order_by_id_snoc)

lemma active_count_snoc:
  "active_count symb (db @ [r]) =
     active_count symb db + (if symbol r = symb \<and> \<not> closed r then 1 else 0)"
  by (simp add: active_count_def)

lemma active_count_map_le:
  assumes "\<And>r. symbol (f r) = symbol r" and "\<And>r. closed r \<Longrightarrow> closed (f r)"
  shows "active_count symb (map f db) \<le> active_count symb db"
proof (induction db)
  case Nil
  then show ?case by (simp add: active_count_def)
next
  case (Cons r db)
  then show ?case using assms [of r] by (auto simp: active_count_def)
qed

lemma active_count_close_le:
  "active_count symb (close_trade_in_db k db) \<le> active_count symb db"
  unfolding close_trade_in_db_def by (rule active_count_map_le) auto

lemma active_count_fill_le:
  "active_count symb (update_trade_on_fill k p db) \<le> active_count symb db"
proof -
  have "active_count symb (map (\<lambda>r. tp_fill k p (entry_fill k p r)) db) \<le> active_count symb db"
    by (rule active_count_map_le) (auto simp: tp_fill_def entry_fill_def)
  then show ?thesis by (simp add: update_trade_on_fill_def comp_def)
qed

lemma filter_singleton:
  assumes "length (filter P xs) \<le> 1" and "a \<in> set xs" and "P a" and "x \<in> set xs" and "P x"
  shows "x = a"
proof -
  have "a \<in> set (filter P xs)" "x \<in> set (filter P xs)" using assms by auto
  moreover obtain y where "filter P xs = [y]"
    using assms(1) \<open>a \<in> set (filter P xs)\<close> by (cases "filter P xs") auto
  ultimately show ?thesis by simp
qed

lemma active_count_close_active:
  assumes "get_active_trade symb db = Some a" and "active_count symb db \<le> 1"
  shows "active_count symb (close_trade_in_db (row_id a) db) = 0"
proof -
  have a: "a \<in> set db" "symbol a = symb" "\<not> closed a"
    using get_active_trade_Some [OF assms(1)] by auto
  have "\<And>x. x \<in> set db \<Longrightarrow> symbol x = symb \<Longrightarrow> \<not> closed x \<Longrightarrow> x = a"
    using filter_singleton [of "\<lambda>r. symbol r = symb \<and> \<not> closed r" db a] assms(2) a
    by (auto simp: active_count_def)
  then have "filter (\<lambda>r. symbol r = symb \<and> \<not> closed r) (close_trade_in_db (row_id a) db) = []"
    by (auto simp: close_trade_in_db_def filter_empty_conv)
  then show ?thesis by (simp add: active_count_def)
qed

lemma close_trade_in_db_ids: "map row_id (close_trade_in_db k db) = map row_id db"
  by (simp add: close_trade_in_db_def)

lemma close_trade_in_db_row_id:
  "x \<in> set (close_trade_in_db k db) \<Longrightarrow> \<exists>y \<in> set db. row_id y = row_id x"
  by (auto simp: close_trade_in_db_def split: if_splits)

lemma open_position_Inr:
  assumes "open_position E sy side q tp sl s = Inr s'"
  shows "trades s' = trades s \<or>
         (\<exists>base entry_id tp_id sl_id.
            (base = trades s \<and> get_active_trade (normalize sy) (trades s) = None \<or>
             (\<exists>a. get_active_trade (normalize sy) (trades s) = Some a \<and> signal a \<noteq> side \<and>
                  base = close_trade_in_db (row_id a) (trades s))) \<and>
            log_new_trade (normalize sy) side q entry_id tp tp_id sl sl_id base = Inr (trades s') \<and>
            (truthy tp \<or> tp_id = None) \<and> (truthy sl \<or> sl_id = None))"
proof -
  define r where "r = open_position E sy side q tp sl s"
  then show ?thesis
  proof (cases rule: open_position_cases)
    case (conn_fail e1 s1)
    then show ?thesis using assms r_def by simp
  next
    case (blocked s1)
    then show ?thesis using assms r_def by (auto simp: connect_ibkr_Inr)
  next
    case (duplicate s1 a)
    then show ?thesis using assms r_def by (auto simp: connect_ibkr_Inr)
  next
    case (fresh s1)
    then have "place_and_log E sy (normalize sy) side q tp sl s1 = Inr s'"
      using assms r_def by simp
    from place_and_log_Inr [OF this] fresh(1,3) show ?thesis
      by (auto simp: connect_ibkr_Inr)
  next
    case (rev_fail s1 a e1 s2)
    then show ?thesis using assms r_def by simp
  next
    case (reversal s1 a s2)
    then have "place_and_log E sy (normalize sy) side q tp sl s2 = Inr s'"
      using assms r_def by simp
    from place_and_log_Inr [OF this] obtain entry_id tp_id sl_id where
      "log_new_trade (normalize sy) side q entry_id tp tp_id sl sl_id (trades s2) = Inr (trades s')"
      "truthy tp \<or> tp_id = None" "truthy sl \<or> sl_id = None"
      by blast
    moreover have "trades s2 = close_trade_in_db (row_id a) (trades s)"
      using close_position_Inr [OF reversal(5)] reversal(1,3) by (simp add: connect_ibkr_Inr)
    ultimately show ?thesis using reversal(3,4) by auto
  qed
qed


section \<open>One active trade per symbol\<close>

lemma active_count_close_le1:
  "active_count symb db \<le> 1 \<Longrightarrow> active_count symb (close_trade_in_db k db) \<le> 1"
  using active_count_close_le [of symb k db] by linarith

lemma step_active_count:
  assumes "active_count symb (trades s) \<le> 1"
  shows "active_count symb (trades (step E ev s)) \<le> 1"
proof (cases ev)
  case (Open sy sd q tp sl)
  show ?thesis
  proof (cases "open_position E sy sd q tp sl s")
    case (Inl x)
    then have "open_position E sy sd q tp sl s = Inl (fst x, snd x)" by simp
    from open_position_failure [OF this] show ?thesis
      using assms Open Inl active_count_close_le1 [OF assms] by auto
  next
    case (Inr s')
    from open_position_Inr [OF this] consider
      (same) "trades s' = trades s"
    | (new) base entry_id tp_id sl_id where
        "base = trades s \<and> get_active_trade (normalize sy) (trades s) = None \<or>
         (\<exists>a. get_active_trade (normalize sy) (trades s) = Some a \<and> signal a \<noteq> sd \<and>
              base = close_trade_in_db (row_id a) (trades s))"
        "log_new_trade (normalize sy) sd q entry_id tp tp_id sl sl_id base = Inr (trades s')"
      by blast
    then show ?thesis
    proof cases
      case same
      then show ?thesis using assms Open Inr by simp
    next
      case new
      have base_le: "active_count symb base \<le> 1"
        using new(1) assms active_count_close_le1 [OF assms] by auto
      have base_zero: "symb = normalize sy \<Longrightarrow> active_count symb base = 0"
        using new(1) assms active_count_close_active [of symb "trades s"]
        by (auto simp: get_active_trade_None)
      have "active_count symb (trades s') \<le> 1"
        using log_new_trade_Inr [OF new(2)] base_le base_zero
        by (auto simp: active_count_snoc)
      then show ?thesis using Open Inr by simp
    qed
  qed
next
  case (Close sy)
  show ?thesis
  proof (cases "close_position E sy s")
    case (Inl x)
    then have "close_position E sy s = Inl (fst x, snd x)" by simp
    from close_position_Inl [OF this] show ?thesis using assms Close Inl by simp
  next
    case (Inr s')
    from close_position_Inr [OF this] show ?thesis
      using assms Close Inr active_count_close_le1 [OF assms] by (auto split: option.splits)
  qed
next
  case (Fill k p)
  then show ?thesis
    using assms active_count_fill_le [of symb k p "trades s"]
    by (simp add: onExecDetails_def)
qed

lemma run_active_count:
  "active_count symb (trades s) \<le> 1 \<Longrightarrow> active_count symb (trades (run E evs s)) \<le> 1"
proof (induction evs arbitrary: s)
  case Nil
  then show ?case by simp
next
  case (Cons ev evs)
  from step_active_count [OF Cons.prems]
  have "active_count symb (trades (step E ev s)) \<le> 1" .
  from Cons.IH [OF this] show ?case by simp
qed

text \<open>
  Claim C1 (invariant I1). Start from a journal in which a symbol has at most one row
  that is not closed, and handle any history of open intents, close intents and fill
  events one after the other, whatever the session answers and whichever calls raise.
  After every prefix of the history the symbol still has at most one row that is not
  closed.
\<close>

theorem one_active_trade_per_symbol:
  assumes "active_count symb (trades s) \<le> 1"
  shows "active_count symb (trades (run E (take k evs) s)) \<le> 1"
  using assms by (rule run_active_count)

theorem one_active_trade_per_symbol_witness:
  "active_count ''AAPL'' (trades (sim_start 20)) \<le> 1 \<and>
   active_count ''AAPL'' (trades (run sim_env (take 6 history_example) (sim_start 20))) \<le> 1 \<and>
   active_count ''AAPL'' (trades (run sim_env (take 6 history_example) (sim_start 20))) = 1"
proof -
  have h: "active_count ''AAPL'' (trades (sim_start 20)) \<le> 1"
    by (simp add: sim_start_def active_count_def)
  have v: "active_count ''AAPL'' (trades (run sim_env (take 6 history_example) (sim_start 20))) = 1"
    by code_simp
  from one_active_trade_per_symbol [OF h, of sim_env 6 history_example] h v
  show ?thesis by simp
qed

section \<open>The re-entry guard\<close>

text \<open>
  Claim C4. When the closed row of the normalized symbol with the largest key has
  \<open>tp_hit\<close> set and its \<open>signal\<close> is the requested side, \<open>open_position\<close> leaves the
  journal and the list of calls to the session exactly as they were, whether it returns
  or the connection attempt raises; with the session connected it returns after adding
  the entry RE-ENTRY BLOCKED to the log of the dashboard.
\<close>

theorem open_position_reentry_blocked:
  assumes "get_last_closed_trade (normalize sy) (trades s) = Some last_closed"
    and "tp_hit last_closed" and "signal last_closed = side"
  shows "trades (after (open_position E sy side q tp sl s)) = trades s \<and>
         calls (after (open_position E sy side q tp sl s)) = calls s \<and>
         (if isConnected E (ib s)
          then open_position E sy side q tp sl s =
                 Inr (s\<lparr>trade_log_ui := trade_log_ui s @ [(normalize sy, ''RE-ENTRY BLOCKED'')]\<rparr>)
          else True)"
proof -
  have b: "reentry_blocked (normalize sy) side (trades s)"
    using assms by (simp add: reentry_blocked_def)
  have "isConnected E (ib s) \<Longrightarrow> open_position E sy side q tp sl s =
          Inr (s\<lparr>trade_log_ui := trade_log_ui s @ [(normalize sy, ''RE-ENTRY BLOCKED'')]\<rparr>)"
    using b by (simp add: open_position_def connect_ibkr_def)
  then show ?thesis using open_position_blocked [OF b] by simp
qed

theorem open_position_reentry_blocked_witness:
  "tp_hit (the (get_last_closed_trade (normalize ''EUR/USD'') (trades blocked_example))) \<and>
   signal (the (get_last_closed_trade (normalize ''EUR/USD'') (trades blocked_example))) = ''buy'' \<and>
   trades (after (open_position sim_env ''EUR/USD'' ''buy'' 500 PNone PNone blocked_example)) =
     trades blocked_example \<and>
   calls (after (open_position sim_env ''EUR/USD'' ''buy'' 500 PNone PNone blocked_example)) =
     calls blocked_example \<and>
   length (calls blocked_example) = 3"
proof -
  have "get_last_closed_trade (normalize ''EUR/USD'') (trades blocked_example) \<noteq> None"
    by code_simp
  then obtain lc where
    h1: "get_last_closed_trade (normalize ''EUR/USD'') (trades blocked_example) = Some lc"
    by auto
  have "tp_hit (the (get_last_closed_trade (normalize ''EUR/USD'') (trades blocked_example)))"
    by code_simp
  then have h2: "tp_hit lc" using h1 by simp
  have "signal (the (get_last_closed_trade (normalize ''EUR/USD'') (trades blocked_example))) =
          ''buy''"
    by code_simp
  then have h3: "signal lc = ''buy''" using h1 by simp
  have n: "length (calls blocked_example) = 3" by code_simp
  from open_position_reentry_blocked [OF h1 h2 h3, of sim_env 500 PNone PNone] h1 h2 h3 n
  show ?thesis by simp
qed

section \<open>Duplicate signals\<close>

lemma log_new_trade_active:
  assumes "log_new_trade symb side q entry_id tp tp_id sl sl_id base = Inr db'"
  shows "\<exists>r. get_active_trade symb db' = Some r \<and> signal r = side"
proof -
  let ?row = "\<lparr>row_id = next_id base, symbol = symb, signal = side, position_size = q,
                entry_order_id = Some entry_id, tp_order_id = tp_id,
                entry_price = None, exit_price = None, tp_price = tp,
                tp_hit = False, closed = False, sl_price = sl, sl_order_id = sl_id\<rparr>"
  have "db' = base @ [?row]" using log_new_trade_Inr [OF assms] .
  moreover have "get_active_trade symb (base @ [?row]) = Some ?row"
    by (rule get_active_trade_snoc) (simp_all add: next_id_gt)
  ultimately show ?thesis by simp
qed

lemma open_position_again:
  assumes "open_position E sy side q tp sl s = Inr s1"
  shows "trades (after (open_position E sy side q tp sl s1)) = trades s1 \<and>
         calls (after (open_position E sy side q tp sl s1)) = calls s1"
proof -
  define r where "r = open_position E sy side q tp sl s"
  then show ?thesis
  proof (cases rule: open_position_cases)
    case (conn_fail e s0)
    then show ?thesis using assms r_def by simp
  next
    case (blocked s0)
    then have "trades s1 = trades s" using assms r_def by (auto simp: connect_ibkr_Inr)
    then show ?thesis using blocked(2) by (simp add: open_position_blocked)
  next
    case (duplicate s0 a)
    then have "trades s1 = trades s" using assms r_def by (auto simp: connect_ibkr_Inr)
    then show ?thesis using duplicate(3,4) by (simp add: open_position_duplicate)
  next
    case (fresh s0)
    then have "place_and_log E sy (normalize sy) side q tp sl s0 = Inr s1"
      using assms r_def by simp
    from place_and_log_Inr [OF this] obtain entry_id tp_id sl_id where
      "log_new_trade (normalize sy) side q entry_id tp tp_id sl sl_id (trades s0) = Inr (trades s1)"
      by blast
    from log_new_trade_active [OF this] show ?thesis
      by (auto simp: open_position_duplicate)
  next
    case (rev_fail s0 a e s2)
    then show ?thesis using assms r_def by simp
  next
    case (reversal s0 a s2)
    then have "place_and_log E sy (normalize sy) side q tp sl s2 = Inr s1"
      using assms r_def by simp
    from place_and_log_Inr [OF this] obtain entry_id tp_id sl_id where
      "log_new_trade (normalize sy) side q entry_id tp tp_id sl sl_id (trades s2) = Inr (trades s1)"
      by blast
    from log_new_trade_active [OF this] show ?thesis
      by (auto simp: open_position_duplicate)
  qed
qed

text \<open>
  Claim C8. When the active row of the normalized symbol has the requested side,
  \<open>open_position\<close> leaves the journal and the list of calls to the session as they were:
  no row is added, no row is changed, no order is placed. Hence an \<open>open_position\<close>
  that returned, called again with the same arguments, changes neither of them.
\<close>

theorem open_position_duplicate_signal:
  "(get_active_trade (normalize sy) (trades s) = Some a \<and> signal a = side \<longrightarrow>
      trades (after (open_position E sy side q tp sl s)) = trades s \<and>
      calls (after (open_position E sy side q tp sl s)) = calls s) \<and>
   (open_position E sy side q tp sl s = Inr s1 \<longrightarrow>
      trades (after (open_position E sy side q tp sl s1)) = trades s1 \<and>
      calls (after (open_position E sy side q tp sl s1)) = calls s1)"
  using open_position_duplicate [of sy s a side E q tp sl]
    open_position_again [of E sy side q tp sl s s1]
  by blast

theorem open_position_duplicate_signal_witness:
  "open_position sim_env ''EUR/USD'' ''buy'' 1000 (PFloat (11/10)) (PFloat (27/25)) (sim_start 10) =
     Inr opened_example \<and>
   signal (the (get_active_trade (normalize ''EUR/USD'') (trades opened_example))) = ''buy'' \<and>
   length (trades opened_example) = 1 \<and> length (calls opened_example) = 3 \<and>
   trades (after (open_position sim_env ''EUR/USD'' ''buy'' 1000 (PFloat (11/10)) (PFloat (27/25))
                    opened_example)) = trades opened_example \<and>
   calls (after (open_position sim_env ''EUR/USD'' ''buy'' 1000 (PFloat (11/10)) (PFloat (27/25))
                    opened_example)) = calls opened_example"
proof -
  have h: "open_position sim_env ''EUR/USD'' ''buy'' 1000 (PFloat (11/10)) (PFloat (27/25))
             (sim_start 10) = Inr opened_example"
    by code_simp
  have a: "signal (the (get_active_trade (normalize ''EUR/USD'') (trades opened_example))) = ''buy''"
    by code_simp
  have n: "length (trades opened_example) = 1" "length (calls opened_example) = 3"
    by code_simp+
  from open_position_duplicate_signal
         [of "''EUR/USD''" "sim_start 10" _ "''buy''" sim_env 1000 "PFloat (11/10)"
             "PFloat (27/25)" opened_example] h a n
  show ?thesis by simp
qed

section \<open>Exceptions while opening\<close>










section \<open>Falsy targets\<close>

lemma exit_order_falsy:
  "\<not> truthy target \<Longrightarrow> exit_order E label c symb side q target s = Inr (None, s)"
  by (simp add: exit_order_def)

lemma place_and_log_falsy_tp:
  assumes "\<not> truthy target"
  shows "calls (after (place_and_log E sy symb side q target other s)) =
           calls (after (place_and_log E sy symb side q PNone other s)) \<and>
         ib (after (place_and_log E sy symb side q target other s)) =
           ib (after (place_and_log E sy symb side q PNone other s))"
  using assms
  by (auto simp: place_and_log_def Let_def exit_order_falsy log_new_trade_def
      split: sum.splits prod.splits option.splits split del: if_split)

lemma place_and_log_falsy_sl:
  assumes "\<not> truthy target"
  shows "calls (after (place_and_log E sy symb side q other target s)) =
           calls (after (place_and_log E sy symb side q other PNone s)) \<and>
         ib (after (place_and_log E sy symb side q other target s)) =
           ib (after (place_and_log E sy symb side q other PNone s))"
  using assms
  by (auto simp: place_and_log_def Let_def exit_order_falsy log_new_trade_def
      split: sum.splits prod.splits option.splits split del: if_split)

lemma open_position_congr:
  assumes "\<And>s2. R (place_and_log E sy (normalize sy) side q tp sl s2)
                   (place_and_log E sy (normalize sy) side q tp' sl' s2)"
    and "\<And>x. R x x"
  shows "R (open_position E sy side q tp sl s) (open_position E sy side q tp' sl' s)"
  by (auto simp: open_position_def Let_def assms split: sum.splits option.splits)

lemma open_position_falsy_tp_calls:
  assumes "\<not> truthy target"
  shows "calls (after (open_position E sy side q target other s)) =
           calls (after (open_position E sy side q PNone other s)) \<and>
         ib (after (open_position E sy side q target other s)) =
           ib (after (open_position E sy side q PNone other s))"
  by (rule open_position_congr
        [where R = "\<lambda>a b. calls (after a) = calls (after b) \<and> ib (after a) = ib (after b)"])
     (simp_all add: place_and_log_falsy_tp [OF assms])

lemma open_position_falsy_sl_calls:
  assumes "\<not> truthy target"
  shows "calls (after (open_position E sy side q other target s)) =
           calls (after (open_position E sy side q other PNone s)) \<and>
         ib (after (open_position E sy side q other target s)) =
           ib (after (open_position E sy side q other PNone s))"
  by (rule open_position_congr
        [where R = "\<lambda>a b. calls (after a) = calls (after b) \<and> ib (after a) = ib (after b)"])
     (simp_all add: place_and_log_falsy_sl [OF assms])

text \<open>
  Claim C10, as amended. When the take-profit argument is falsy (\<open>None\<close>, \<open>0\<close>,
  \<open>0.0\<close>, \<open>False\<close>, an empty string, list or dict), the only limit order
  \<open>open_position\<close> can place is the one of the stop-loss block; the session receives
  the calls, and is left in the state, of the same call with the target absent; and a
  row the call adds has \<open>tp_order_id\<close> none and the raw argument in \<open>tp_price\<close>. The
  same holds with the two targets exchanged, for \<open>sl_order_id\<close> and \<open>sl_price\<close>.
\<close>

theorem open_position_falsy_target:
  assumes "\<not> truthy target"
  shows "(prefix (limit_orders (issued s (after (open_position E sy side q target other s))))
            (exit_orders E side q other) \<and>
          calls (after (open_position E sy side q target other s)) =
            calls (after (open_position E sy side q PNone other s)) \<and>
          ib (after (open_position E sy side q target other s)) =
            ib (after (open_position E sy side q PNone other s)) \<and>
          (\<forall>s'. open_position E sy side q target other s = Inr s' \<and>
                length (trades s') = Suc (length (trades s)) \<longrightarrow>
                tp_order_id (last (trades s')) = None \<and> tp_price (last (trades s')) = target)) \<and>
         (prefix (limit_orders (issued s (after (open_position E sy side q other target s))))
            (exit_orders E side q other) \<and>
          calls (after (open_position E sy side q other target s)) =
            calls (after (open_position E sy side q other PNone s)) \<and>
          ib (after (open_position E sy side q other target s)) =
            ib (after (open_position E sy side q other PNone s)) \<and>
          (\<forall>s'. open_position E sy side q other target s = Inr s' \<and>
                length (trades s') = Suc (length (trades s)) \<longrightarrow>
                sl_order_id (last (trades s')) = None \<and> sl_price (last (trades s')) = target))"
proof -
  have none: "exit_orders E side q target = []"
    using assms by (simp add: exit_orders_def)
  have c1: "prefix (limit_orders (issued s (after (open_position E sy side q target other s))))
              (exit_orders E side q other)"
    using open_position_calls [of E sy side q target other s] none
    by (auto simp: issued_append)
  have c2: "prefix (limit_orders (issued s (after (open_position E sy side q other target s))))
              (exit_orders E side q other)"
    using open_position_calls [of E sy side q other target s] none
    by (auto simp: issued_append)
  have r1: "tp_order_id (last (trades s')) = None \<and> tp_price (last (trades s')) = target"
    if "open_position E sy side q target other s = Inr s'"
      and "length (trades s') = Suc (length (trades s))" for s'
    using open_position_Inr [OF that(1)] that(2) assms
    by (auto dest!: log_new_trade_Inr)
  have r2: "sl_order_id (last (trades s')) = None \<and> sl_price (last (trades s')) = target"
    if "open_position E sy side q other target s = Inr s'"
      and "length (trades s') = Suc (length (trades s))" for s'
    using open_position_Inr [OF that(1)] that(2) assms
    by (auto dest!: log_new_trade_Inr)
  from c1 c2 r1 r2 open_position_falsy_tp_calls [OF assms, of E sy side q other s]
    open_position_falsy_sl_calls [OF assms, of E sy side q other s]
  show ?thesis by blast
qed

text \<open>
  The claim as stated fails in the journal: with the target \<open>0\<close> the session sees what
  it sees with the target absent, but the row records the price \<open>0\<close> where the other
  records \<open>NULL\<close>, so the two are told apart. With the falsy target \<open>[]\<close> the entry
  order is placed and the final INSERT raises: there is no row at all.
\<close>

theorem open_position_falsy_target_counterexample:
  "\<not> truthy (PInt 0) \<and>
   calls (after (open_position sim_env ''AAPL'' ''buy'' 100 (PInt 0) PNone (sim_start 10))) =
     calls (after (open_position sim_env ''AAPL'' ''buy'' 100 PNone PNone (sim_start 10))) \<and>
   map tp_order_id (trades (after (open_position sim_env ''AAPL'' ''buy'' 100 (PInt 0) PNone
                                     (sim_start 10)))) = [None] \<and>
   map tp_price (trades (after (open_position sim_env ''AAPL'' ''buy'' 100 (PInt 0) PNone
                                  (sim_start 10)))) = [PInt 0] \<and>
   map tp_price (trades (after (open_position sim_env ''AAPL'' ''buy'' 100 PNone PNone
                                  (sim_start 10)))) = [PNone] \<and>
   trades (after (open_position sim_env ''AAPL'' ''buy'' 100 (PInt 0) PNone (sim_start 10))) \<noteq>
     trades (after (open_position sim_env ''AAPL'' ''buy'' 100 PNone PNone (sim_start 10))) \<and>
   \<not> truthy (PList []) \<and>
   isl (open_position sim_env ''AAPL'' ''buy'' 100 (PList []) PNone (sim_start 10)) \<and>
   trades (after (open_position sim_env ''AAPL'' ''buy'' 100 (PList []) PNone (sim_start 10))) = [] \<and>
   length (calls (after (open_position sim_env ''AAPL'' ''buy'' 100 (PList []) PNone
                           (sim_start 10)))) = 1"
  by code_simp

theorem open_position_falsy_target_witness:
  "\<not> truthy (PInt 0) \<and>
   limit_orders (issued (sim_start 10)
      (after (open_position sim_env ''AAPL'' ''buy'' 100 (PInt 0) (PInt 90) (sim_start 10)))) =
     [LimitOrder ''SELL'' 100 90] \<and>
   tp_order_id (last (trades
      (after (open_position sim_env ''AAPL'' ''buy'' 100 (PInt 0) (PInt 90) (sim_start 10))))) = None \<and>
   tp_price (last (trades
      (after (open_position sim_env ''AAPL'' ''buy'' 100 (PInt 0) (PInt 90) (sim_start 10))))) = PInt 0 \<and>
   calls (after (open_position sim_env ''AAPL'' ''buy'' 100 (PInt 0) (PInt 90) (sim_start 10))) =
     calls (after (open_position sim_env ''AAPL'' ''buy'' 100 PNone (PInt 90) (sim_start 10))) \<and>
   prefix (limit_orders (issued (sim_start 10)
      (after (open_position sim_env ''AAPL'' ''buy'' 100 (PInt 90) (PInt 0) (sim_start 10)))))
     (exit_orders sim_env ''buy'' 100 (PInt 90))"
proof -
  have h: "\<not> truthy (PInt 0)" by simp
  have v: "limit_orders (issued (sim_start 10)
      (after (open_position sim_env ''AAPL'' ''buy'' 100 (PInt 0) (PInt 90) (sim_start 10)))) =
     [LimitOrder ''SELL'' 100 90]"
    "tp_order_id (last (trades
      (after (open_position sim_env ''AAPL'' ''buy'' 100 (PInt 0) (PInt 90) (sim_start 10))))) = None"
    "tp_price (last (trades
      (after (open_position sim_env ''AAPL'' ''buy'' 100 (PInt 0) (PInt 90) (sim_start 10))))) = PInt 0"
    by code_simp+
  from open_position_falsy_target [OF h, of "sim_start 10" sim_env "''AAPL''" "''buy''" 100 "PInt 90"]
  have "calls (after (open_position sim_env ''AAPL'' ''buy'' 100 (PInt 0) (PInt 90) (sim_start 10))) =
     calls (after (open_position sim_env ''AAPL'' ''buy'' 100 PNone (PInt 90) (sim_start 10)))"
    "prefix (limit_orders (issued (sim_start 10)
      (after (open_position sim_env ''AAPL'' ''buy'' 100 (PInt 90) (PInt 0) (sim_start 10)))))
     (exit_orders sim_env ''buy'' 100 (PInt 90))"
    by blast+
  with h v show ?thesis by blast
qed

section \<open>The webhook\<close>

text \<open>
  Claim C2, as amended. A body that is a JSON object whose \<open>action\<close> is neither
  \<open>"open"\<close> nor \<open>"close"\<close> (or is missing) is answered with success, code 200, and
  nothing is done: the state is the one before the request.
\<close>

theorem webhook_unknown_action:
  assumes "dict_get kvs ''action'' \<noteq> PStr ''open''"
    and "dict_get kvs ''action'' \<noteq> PStr ''close''"
  shows "webhook E (PDict kvs) s = Some (Success200, s)"
  using assms by (simp add: webhook_def Let_def)

text \<open>
  The claim as stated fails: the action \<open>"hold"\<close> is not rejected, the reply is the
  reply of a successful request.
\<close>

theorem webhook_unknown_action_counterexample:
  "webhook sim_env (PDict [(''action'', PStr ''hold''), (''symbol'', PStr ''AAPL'')]) (sim_start 10) =
     Some (Success200, sim_start 10)"
  by (simp add: webhook_def dict_get_def)

theorem webhook_unknown_action_witness:
  "dict_get [(''action'', PStr ''reverse''), (''symbol'', PStr ''AAPL'')] ''action'' \<noteq> PStr ''open'' \<and>
   dict_get [(''action'', PStr ''reverse''), (''symbol'', PStr ''AAPL'')] ''action'' \<noteq> PStr ''close'' \<and>
   webhook sim_env (PDict [(''action'', PStr ''reverse''), (''symbol'', PStr ''AAPL'')]) (sim_start 10) =
     Some (Success200, sim_start 10)"
proof -
  have h1: "dict_get [(''action'', PStr ''reverse''), (''symbol'', PStr ''AAPL'')] ''action'' \<noteq> PStr ''open''"
    by (simp add: dict_get_def)
  have h2: "dict_get [(''action'', PStr ''reverse''), (''symbol'', PStr ''AAPL'')] ''action'' \<noteq> PStr ''close''"
    by (simp add: dict_get_def)
  from webhook_unknown_action [OF h1 h2, of sim_env "sim_start 10"] h1 h2
  show ?thesis by blast
qed

text \<open>A body that is not a JSON object is the one malformed request that is answered
  with an error: the lookup of \<open>action\<close> raises, and the handler replies with code 500.\<close>

lemma webhook_not_an_object:
  "webhook E PNone s = Some (Error500 AttributeError, s) \<and>
   webhook E (PBool b) s = Some (Error500 AttributeError, s) \<and>
   webhook E (PInt i) s = Some (Error500 AttributeError, s) \<and>
   webhook E (PFloat x) s = Some (Error500 AttributeError, s) \<and>
   webhook E (PStr str) s = Some (Error500 AttributeError, s) \<and>
   webhook E (PList xs) s = Some (Error500 AttributeError, s)"
  by (simp add: webhook_def)

section \<open>Reversal\<close>

text \<open>
  What a reversal does to the journal and in which order it calls the session: the
  active row is closed, one row of the requested side is added and is the only active
  row of the symbol; the closing market order, on the side opposite to the old trade and
  of its size, is placed before the new entry order, after at most one cancellation.
\<close>

lemma close_position_Inr_calls:
  assumes "close_position E sy s = Inr s'"
    and "get_active_trade (normalize sy) (trades s) = Some a"
  shows "\<exists>c cc. contract_for E sy (normalize sy) = Inr c \<and>
           (cc = [] \<or> (\<exists>ord. cc = [CancelOrder ord])) \<and>
           calls s' = calls s @ cc @
             [PlaceOrder c (MarketOrder (if signal a = ''buy'' then ''SELL'' else ''BUY'')
                                        (position_size a))]"
proof (cases "connect_ibkr E s")
  case (Inl x)
  then show ?thesis using assms by (simp add: close_position_def)
next
  case (Inr s1)
  then have e: "trades s1 = trades s" "calls s1 = calls s" by (simp_all add: connect_ibkr_Inr)
  obtain cc where cc: "calls (cancel_tp E a s1) = calls s @ cc"
      "cc = [] \<or> (\<exists>ord. cc = [CancelOrder ord])"
    using cancel_tp_calls [of E a s1] e(2) by auto
  show ?thesis
  proof (cases "contract_for E sy (normalize sy)")
    case (Inl err)
    then show ?thesis using assms Inr e by (simp add: close_position_def Let_def)
  next
    case c: (Inr c)
    have "calls s' = calls s @ cc @
             [PlaceOrder c (MarketOrder (if signal a = ''buy'' then ''SELL'' else ''BUY'')
                                        (position_size a))]"
      using assms Inr e c cc(1)
      by (auto simp: close_position_def Let_def dest!: place_Inr
          split: sum.splits prod.splits split del: if_split)
    then show ?thesis using c cc(2) by blast
  qed
qed

lemma open_position_reversal:
  assumes "get_active_trade (normalize sy) (trades s) = Some a" and "signal a \<noteq> side"
    and "active_count (normalize sy) (trades s) \<le> 1"
    and "\<not> reentry_blocked (normalize sy) side (trades s)"
    and "open_position E sy side q tp sl s = Inr s'"
  shows "\<exists>new c cc.
           trades s' = close_trade_in_db (row_id a) (trades s) @ [new] \<and>
           symbol new = normalize sy \<and> signal new = side \<and> \<not> closed new \<and>
           get_active_trade (normalize sy) (trades s') = Some new \<and>
           active_count (normalize sy) (trades s') = 1 \<and>
           (cc = [] \<or> (\<exists>ord. cc = [CancelOrder ord])) \<and>
           calls s' = calls s @ cc @
             PlaceOrder c (MarketOrder (if signal a = ''buy'' then ''SELL'' else ''BUY'')
                                       (position_size a)) #
             PlaceOrder c (MarketOrder (if side = ''buy'' then ''BUY'' else ''SELL'') q) #
             map (PlaceOrder c) (exit_orders E side q tp @ exit_orders E side q sl)"
proof -
  define r where "r = open_position E sy side q tp sl s"
  then show ?thesis
  proof (cases rule: open_position_cases)
    case (reversal s1 a' s2)
    then have a': "a' = a" using assms(1) by simp
    have e: "trades s1 = trades s" "calls s1 = calls s"
      using reversal(1) by (simp_all add: connect_ibkr_Inr)
    let ?base = "close_trade_in_db (row_id a) (trades s)"
    have t2: "trades s2 = ?base"
      using close_position_Inr [OF reversal(5)] assms(1) e by simp
    obtain c cc where c: "contract_for E sy (normalize sy) = Inr c"
        "cc = [] \<or> (\<exists>ord. cc = [CancelOrder ord])"
        "calls s2 = calls s @ cc @
           [PlaceOrder c (MarketOrder (if signal a = ''buy'' then ''SELL'' else ''BUY'')
                                      (position_size a))]"
      using close_position_Inr_calls [OF reversal(5), of a] assms(1) e by auto
    have p: "place_and_log E sy (normalize sy) side q tp sl s2 = Inr s'"
      using reversal(6) assms(5) r_def by simp
    from place_and_log_Inr [OF p] c(1) obtain entry_id tp_id sl_id where
      l: "log_new_trade (normalize sy) side q entry_id tp tp_id sl sl_id (trades s2) = Inr (trades s')"
      and k: "calls s' = calls s2 @
                PlaceOrder c (MarketOrder (if side = ''buy'' then ''BUY'' else ''SELL'') q) #
                map (PlaceOrder c) (exit_orders E side q tp @ exit_orders E side q sl)"
      by auto
    let ?new = "\<lparr>row_id = next_id ?base, symbol = normalize sy, signal = side, position_size = q,
                entry_order_id = Some entry_id, tp_order_id = tp_id,
                entry_price = None, exit_price = None, tp_price = tp,
                tp_hit = False, closed = False, sl_price = sl, sl_order_id = sl_id\<rparr>"
    have t: "trades s' = ?base @ [?new]"
      using log_new_trade_Inr [OF l] t2 by simp
    have g: "get_active_trade (normalize sy) (trades s') = Some ?new"
      unfolding t by (rule get_active_trade_snoc) (simp_all add: next_id_gt)
    have z: "active_count (normalize sy) ?base = 0"
      using active_count_close_active [OF assms(1) assms(3)] .
    have n: "active_count (normalize sy) (trades s') = 1"
      unfolding t by (simp add: active_count_snoc z)
    have "calls s' = calls s @ cc @
             PlaceOrder c (MarketOrder (if signal a = ''buy'' then ''SELL'' else ''BUY'')
                                       (position_size a)) #
             PlaceOrder c (MarketOrder (if side = ''buy'' then ''BUY'' else ''SELL'') q) #
             map (PlaceOrder c) (exit_orders E side q tp @ exit_orders E side q sl)"
      using k c(3) by simp
    with t g n c(2) show ?thesis
      by (intro exI [of _ ?new] exI [of _ c] exI [of _ cc]) simp
  qed (use assms r_def in simp_all)
qed

text \<open>
  Claim C3. The journal side of the claim is \<open>open_position_reversal\<close>. The
  cancellation is where the program departs from it: \<open>close_position\<close> looks the order up
  with \<open>ib.orders()[tp_order_id]\<close>, the identifier used as a position in the list of
  the session's orders. On a session whose first three orders have the identifiers 1, 2
  and 3 (entry, take-profit, stop-loss), the reversal asks the session to cancel order 3,
  the stop-loss order; the take-profit order 2 is never cancelled.
\<close>

theorem reversal_cancels_wrong_order:
  "map tp_order_id (trades bracket_example) = [Some 2] \<and>
   map sl_order_id (trades bracket_example) = [Some 3] \<and>
   map orderId (sim_orders (ib bracket_example)) = [1, 2, 3] \<and>
   map closed (trades (after (open_position sim_env ''AAPL'' ''sell'' 50 PNone PNone
                                bracket_example))) = [True, False] \<and>
   map signal (trades (after (open_position sim_env ''AAPL'' ''sell'' 50 PNone PNone
                                bracket_example))) = [''buy'', ''sell''] \<and>
   issued bracket_example
     (after (open_position sim_env ''AAPL'' ''sell'' 50 PNone PNone bracket_example)) =
     [CancelOrder (LimitOrder ''SELL'' 100 90\<lparr>orderId := 3\<rparr>),
      PlaceOrder (Stock ''AAPL'' ''SMART'' ''USD'') (MarketOrder ''SELL'' 100),
      PlaceOrder (Stock ''AAPL'' ''SMART'' ''USD'') (MarketOrder ''SELL'' 50)] \<and>
   sim_cancelled (ib (after (open_position sim_env ''AAPL'' ''sell'' 50 PNone PNone
                               bracket_example))) = [3]"
  by code_simp

text \<open>
  With a take-profit order only, the lookup runs past the end of the list: the
  IndexError is swallowed and no cancellation is issued at all.
\<close>

lemma reversal_does_not_cancel_take_profit:
  "map tp_order_id (trades take_profit_example) = [Some 2] \<and>
   map orderId (sim_orders (ib take_profit_example)) = [1, 2] \<and>
   map closed (trades (after (open_position sim_env ''AAPL'' ''sell'' 50 PNone PNone
                                take_profit_example))) = [True, False] \<and>
   map signal (trades (after (open_position sim_env ''AAPL'' ''sell'' 50 PNone PNone
                                take_profit_example))) = [''buy'', ''sell''] \<and>
   issued take_profit_example
     (after (open_position sim_env ''AAPL'' ''sell'' 50 PNone PNone take_profit_example)) =
     [PlaceOrder (Stock ''AAPL'' ''SMART'' ''USD'') (MarketOrder ''SELL'' 100),
      PlaceOrder (Stock ''AAPL'' ''SMART'' ''USD'') (MarketOrder ''SELL'' 50)] \<and>
   sim_cancelled (ib (after (open_position sim_env ''AAPL'' ''sell'' 50 PNone PNone
                               take_profit_example))) = []"
  by code_simp

end
